theory Spec2Isabelle
  imports Complex_Main
begin

section \<open>Employee attendance: the store, its policies and triggers, and the page handlers\<close>

text \<open>
  The backend is a PostgreSQL schema (tables, row-level security policies, triggers and
  two functions) and the frontend a set of page handlers issuing single statements against
  it. Both are embedded here: the tables as lists of records, a statement as a function
  from the store to an outcome and the store afterwards, an error raised by the store as a
  value of \<open>db_error\<close>.

  Instants (\<open>TIMESTAMPTZ\<close>) are microseconds since the epoch, calendar dates are days
  since the epoch, the readings of the browser clock (\<open>new Date()\<close>) are milliseconds since
  the epoch, and identifiers (\<open>UUID\<close>) are natural numbers. A text on which the
  browser computes (the reason of an edit, which it trims and measures) is a JavaScript
  string: the list of its UTF-16 code units.
\<close>

subsection \<open>Basic types\<close>

type_synonym uuid = nat
type_synonym timestamptz = int
type_synonym date = int
type_synonym js_date = int
type_synonym js_string = "nat list"

text \<open>The code units of a text of ASCII characters.\<close>
definition code_units :: "string \<Rightarrow> js_string" where
  "code_units s = map of_char s"

text \<open>\<open>CREATE TYPE app_role AS ENUM ('admin', 'manager', 'employee')\<close>\<close>
datatype app_role = Admin | Manager | Employee

text \<open>\<open>CREATE TYPE user_role AS ENUM ('employee', 'manager')\<close>\<close>
datatype user_role = UEmployee | UManager

text \<open>\<open>CREATE TYPE attendance_status AS ENUM ('present', 'absent', 'late', 'half-day')\<close>\<close>
datatype attendance_status = Present | Absent | Late | HalfDay

text \<open>The errors the store raises in the statements modelled here.\<close>
datatype db_error =
    RlsViolation               \<comment> \<open>new row violates row-level security policy\<close>
  | UniqueViolation            \<comment> \<open>duplicate key value violates unique constraint\<close>
  | ForeignKeyViolation        \<comment> \<open>insert or update violates foreign key constraint\<close>
  | NumericOverflow            \<comment> \<open>numeric field overflow, on \<open>DECIMAL(4,2)\<close>\<close>
  | InvalidTextRepresentation  \<comment> \<open>invalid input syntax for a cast from text\<close>
  | IntegerOutOfRange          \<comment> \<open>a cast to \<open>INT\<close> outside 32 bits\<close>
  | TimeFieldOutOfRange        \<comment> \<open>\<open>make_time\<close> outside a day\<close>
  | SequenceExhausted          \<comment> \<open>\<open>nextval\<close> past the maximum of the sequence\<close>
  | MultipleRows               \<comment> \<open>\<open>maybeSingle()\<close> on more than one row\<close>

text \<open>
  A \<open>JSONB\<close> object, as far as \<open>(value->>'k')::INT\<close> can tell its members apart: a
  member is JSON \<open>null\<close>, or its text is an integer literal, or it is anything else.
\<close>
datatype jval = JNull | JInteger int | JNonInteger

type_synonym jsonb = "(string \<times> jval) list"

subsection \<open>The lateness predicate\<close>

definition USECS_PER_DAY :: int where
  "USECS_PER_DAY = 86400000000"

text \<open>\<open>(value->>key)::INT\<close>: \<open>NULL\<close> for an absent or null member.\<close>
definition json_text_int :: "jsonb \<Rightarrow> string \<Rightarrow> db_error + int option" where
  "json_text_int v k =
     (case map_of v k of
        None \<Rightarrow> Inr None
      | Some JNull \<Rightarrow> Inr None
      | Some (JInteger n) \<Rightarrow>
          (if - 2147483648 \<le> n \<and> n \<le> 2147483647 then Inr (Some n)
           else Inl IntegerOutOfRange)
      | Some JNonInteger \<Rightarrow> Inl InvalidTextRepresentation)"

text \<open>
  \<open>make_time(hour, min, 0)\<close>, as microseconds since midnight. The function is strict
  (a \<open>NULL\<close> argument gives \<open>NULL\<close>), accepts \<open>24:00\<close> and raises outside the day.
\<close>
definition make_time :: "int option \<Rightarrow> int option \<Rightarrow> db_error + int option" where
  "make_time h m =
     (case (h, m) of
        (Some hh, Some mm) \<Rightarrow>
          (if hh < 0 \<or> 24 < hh \<or> mm < 0 \<or> 59 < mm
              \<or> USECS_PER_DAY < (hh * 60 + mm) * 60000000
           then Inl TimeFieldOutOfRange
           else Inr (Some ((hh * 60 + mm) * 60000000)))
      | _ \<Rightarrow> Inr None)"

text \<open>
  \<open>check_in_time::TIME\<close>: the time of day of the instant in the session's time zone,
  whose offset from UTC at that instant is \<open>tz\<close> microseconds.
\<close>
definition time_of_day :: "int \<Rightarrow> timestamptz \<Rightarrow> int" where
  "time_of_day tz t = (t + tz) mod USECS_PER_DAY"

text \<open>
  \<open>SELECT (value->>'hours')::INT, (value->>'minutes')::INT INTO late_hours, late_minutes
  FROM settings WHERE key = 'late_threshold'\<close>; the key is unique, and no row leaves both
  variables \<open>NULL\<close>.
\<close>
definition select_late_threshold ::
  "(string \<times> jsonb) list \<Rightarrow> db_error + (int option \<times> int option)" where
  "select_late_threshold st =
     (case map_of st ''late_threshold'' of
        None \<Rightarrow> Inr (None, None)
      | Some v \<Rightarrow>
          (case json_text_int v ''hours'' of
             Inl e \<Rightarrow> Inl e
           | Inr h \<Rightarrow>
               (case json_text_int v ''minutes'' of
                  Inl e \<Rightarrow> Inl e
                | Inr m \<Rightarrow> Inr (h, m))))"

text \<open>
  \<open>is_late_check_in(check_in_time)\<close>. The result is \<open>NULL\<close> (\<open>None\<close>) when the
  threshold is: that is, when the row has hours and no minutes.
\<close>
definition is_late_check_in ::
  "(string \<times> jsonb) list \<Rightarrow> int \<Rightarrow> timestamptz \<Rightarrow> db_error + bool option" where
  "is_late_check_in st tz check_in_time =
     (case select_late_threshold st of
        Inl e \<Rightarrow> Inl e
      | Inr (late_hours, late_minutes) \<Rightarrow>
          (let (h, m) = (if late_hours = None then (Some 9, Some 15)
                         else (late_hours, late_minutes))
           in case make_time h m of
                Inl e \<Rightarrow> Inl e
              | Inr threshold_time \<Rightarrow>
                  Inr (map_option (\<lambda>thr. thr < time_of_day tz check_in_time)
                         threshold_time)))"

subsection \<open>Tables\<close>

text \<open>
  \<open>public.attendance\<close>, with the audit columns the later migration adds. The column
  \<open>total_hours\<close> is \<open>DECIMAL(4,2)\<close>: a rational with two decimals, below 100 in
  magnitude. \<open>original_status\<close> is \<open>TEXT\<close>.
\<close>
record attendance_row =
  att_id :: uuid
  user_id :: uuid
  date :: date
  check_in_time :: "timestamptz option"
  check_out_time :: "timestamptz option"
  status :: attendance_status
  total_hours :: "rat option"
  att_notes :: "string option"
  created_at :: timestamptz
  updated_at :: timestamptz
  modified_by :: "uuid option"
  modified_at :: "timestamptz option"
  original_status :: "string option"
  modification_reason :: "js_string option"

text \<open>\<open>public.profiles\<close>; \<open>employee_id\<close> is unique, \<open>role\<close> is of the two-valued enum.\<close>
record profile_row =
  prof_id :: uuid
  name :: string
  email :: string
  employee_id :: string
  department :: string
  role :: user_role

text \<open>\<open>public.invitations\<close>; \<open>status\<close> is nullable text, \<open>token\<close> is unique.\<close>
record invitation_row =
  inv_id :: uuid
  inv_email :: string
  inv_name :: string
  inv_department :: string
  inv_role :: app_role
  invited_by :: uuid
  inv_token :: string
  inv_status :: "string option"
  inv_expires_at :: timestamptz

text \<open>The registration metadata \<open>raw_user_meta_data\<close>: three members, each a string or null.\<close>
record user_meta =
  meta_name :: "string option"
  meta_department :: "string option"
  meta_role :: "string option"

text \<open>\<open>auth.users\<close>, as far as the trigger reads it.\<close>
record auth_user =
  au_id :: uuid
  au_email :: string
  raw_user_meta_data :: user_meta

text \<open>
  The store. \<open>user_roles\<close> holds the pairs (user, role), unique as pairs;
  \<open>employee_id_seq\<close> is the number of values the sequence has handed out (it starts
  at 1). Columns that a default fills and no statement here reads (the keys and creation
  times of \<open>user_roles\<close>, \<open>profiles\<close> and \<open>invitations\<close>) are left out.
\<close>
record db =
  auth_users :: "auth_user list"
  profiles :: "profile_row list"
  user_roles :: "(uuid \<times> app_role) list"
  attendance :: "attendance_row list"
  invitations :: "invitation_row list"
  settings :: "(string \<times> jsonb) list"
  employee_id_seq :: nat

text \<open>What a handler shows to the user.\<close>
datatype toast =
    Silent
  | ToastStoreError db_error
  | ToastError string
  | ToastSuccess string
  | ToastWarning string
  | ToastInfo string

subsection \<open>Role predicate and policies\<close>

text \<open>\<open>has_role(_user_id, _role)\<close>: a row of \<open>user_roles\<close> exists for the pair.\<close>
definition has_role :: "db \<Rightarrow> uuid \<Rightarrow> app_role \<Rightarrow> bool" where
  "has_role d u r = ((u, r) \<in> set (user_roles d))"

text \<open>
  \<open>has_role(auth.uid(), 'manager') OR has_role(auth.uid(), 'admin')\<close>, for a policy that
  is \<open>TO authenticated\<close>: a request without a session (\<open>None\<close>) passes no policy.
\<close>
definition manager_or_admin :: "db \<Rightarrow> uuid option \<Rightarrow> bool" where
  "manager_or_admin d actor =
     (case actor of None \<Rightarrow> False
      | Some u \<Rightarrow> has_role d u Manager \<or> has_role d u Admin)"

text \<open>
  The \<open>USING\<close> expression shared by "Employees can view their own attendance" and
  "Employees can update their own attendance".
\<close>
definition attendance_owner_or_manager :: "db \<Rightarrow> uuid option \<Rightarrow> attendance_row \<Rightarrow> bool" where
  "attendance_owner_or_manager d actor r =
     (case actor of None \<Rightarrow> False
      | Some u \<Rightarrow> u = user_id r \<or> has_role d u Manager \<or> has_role d u Admin)"

subsection \<open>Total hours\<close>

text \<open>\<open>EXTRACT(EPOCH FROM interval)\<close>: the seconds of an interval of microseconds.\<close>
definition extract_epoch :: "int \<Rightarrow> rat" where
  "extract_epoch usecs = of_int usecs / 1000000"

text \<open>
  Rounding a numeric to two decimals, halves away from zero. The store computes the
  quotient that is rounded to at least 16 significant digits; between two instants, which
  are a whole number of microseconds apart, that leaves the two decimals as those of the
  exact quotient, which is what is rounded here.
\<close>
definition round_scale2 :: "rat \<Rightarrow> rat" where
  "round_scale2 x = sgn x * of_int \<lfloor>\<bar>x\<bar> * 100 + 1 / 2\<rfloor> / 100"

text \<open>The coercion to \<open>DECIMAL(4,2)\<close>: round, then at most two digits before the point.\<close>
definition numeric_4_2 :: "rat \<Rightarrow> db_error + rat" where
  "numeric_4_2 x =
     (if 100 \<le> \<bar>round_scale2 x\<bar> then Inl NumericOverflow else Inr (round_scale2 x))"

text \<open>
  The trigger function \<open>calculate_total_hours()\<close>, run before every insert and update of
  an attendance row.
\<close>
definition calculate_total_hours :: "attendance_row \<Rightarrow> db_error + attendance_row" where
  "calculate_total_hours new =
     (case (check_in_time new, check_out_time new) of
        (Some cin, Some cout) \<Rightarrow>
          (case numeric_4_2 (extract_epoch (cout - cin) / 3600) of
             Inl e \<Rightarrow> Inl e
           | Inr h \<Rightarrow> Inr (new\<lparr>total_hours := Some h\<rparr>))
      | _ \<Rightarrow> Inr new)"

text \<open>The trigger function \<open>update_updated_at_column()\<close>, run before every update.\<close>
definition update_updated_at_column :: "timestamptz \<Rightarrow> attendance_row \<Rightarrow> attendance_row" where
  "update_updated_at_column now new = new\<lparr>updated_at := now\<rparr>"

subsection \<open>Statements on the attendance table\<close>

text \<open>
  \<open>INSERT INTO attendance\<close>: the before-insert trigger, then the policy
  "Employees can insert their own attendance" (\<open>auth.uid() = user_id\<close>), then the primary
  key and \<open>UNIQUE(user_id, date)\<close>. A failed statement leaves the store as it was.
\<close>
definition insert_attendance :: "db \<Rightarrow> uuid option \<Rightarrow> attendance_row \<Rightarrow> db_error option \<times> db" where
  "insert_attendance d actor new =
     (case calculate_total_hours new of
        Inl e \<Rightarrow> (Some e, d)
      | Inr r \<Rightarrow>
          (if actor \<noteq> Some (user_id r) then (Some RlsViolation, d)
           else if list_ex (\<lambda>x. att_id x = att_id r \<or> (user_id x = user_id r \<and> date x = date r))
                     (attendance d)
           then (Some UniqueViolation, d)
           else (None, d\<lparr>attendance := attendance d @ [r]\<rparr>)))"

text \<open>
  The rows of an \<open>UPDATE\<close>: a row that the \<open>WHERE\<close> clause and the policy select is
  replaced by what the assignment and the triggers make of it; the first error aborts.
\<close>
fun update_rows ::
  "('a \<Rightarrow> bool) \<Rightarrow> ('a \<Rightarrow> db_error + 'a) \<Rightarrow> 'a list \<Rightarrow> db_error + 'a list" where
  "update_rows sel f [] = Inr []"
| "update_rows sel f (r # rs) =
     (case (if sel r then f r else Inr r) of
        Inl e \<Rightarrow> Inl e
      | Inr r' \<Rightarrow>
          (case update_rows sel f rs of
             Inl e \<Rightarrow> Inl e
           | Inr rs' \<Rightarrow> Inr (r' # rs')))"

text \<open>
  \<open>UPDATE attendance SET ... WHERE id = ...\<close>, the assignment given as a function of the
  row. Rows that fail the policy's \<open>USING\<close> expression are passed over without an error.
  The before-update triggers run in the order of their names: the hours, then
  \<open>updated_at\<close>. No assignment here touches \<open>user_id\<close> or \<open>date\<close>, so the new row
  passes the policy and the unique constraint as the old one did.
\<close>
definition update_attendance ::
  "db \<Rightarrow> uuid option \<Rightarrow> uuid \<Rightarrow> (attendance_row \<Rightarrow> attendance_row) \<Rightarrow> timestamptz
     \<Rightarrow> db_error option \<times> db" where
  "update_attendance d actor rid assign now =
     (case update_rows (\<lambda>r. att_id r = rid \<and> attendance_owner_or_manager d actor r)
             (\<lambda>r. case calculate_total_hours (assign r) of
                     Inl e \<Rightarrow> Inl e
                   | Inr r' \<Rightarrow> Inr (update_updated_at_column now r'))
             (attendance d) of
        Inl e \<Rightarrow> (Some e, d)
      | Inr rs \<Rightarrow> (None, d\<lparr>attendance := rs\<rparr>))"

text \<open>
  \<open>DELETE FROM attendance WHERE id = ...\<close> under "Managers can delete attendance": the
  rows that fail the \<open>USING\<close> expression are not deleted, and no error is raised for
  them. The result is the number of rows deleted.
\<close>
definition delete_attendance :: "db \<Rightarrow> uuid option \<Rightarrow> uuid \<Rightarrow> (db_error + nat) \<times> db" where
  "delete_attendance d actor rid =
     (let doomed = (\<lambda>r. att_id r = rid \<and> manager_or_admin d actor
                         \<and> attendance_owner_or_manager d actor r)
      in (Inr (length (filter doomed (attendance d))),
          d\<lparr>attendance := filter (\<lambda>r. \<not> doomed r) (attendance d)\<rparr>))"

text \<open>
  \<open>INSERT INTO user_roles\<close> under "Only managers can insert roles": the \<open>WITH CHECK\<close>
  expression, then \<open>UNIQUE (user_id, role)\<close>, then, at the end of the statement, the
  foreign key of \<open>user_id\<close> into \<open>auth.users\<close>.
\<close>
definition insert_user_role :: "db \<Rightarrow> uuid option \<Rightarrow> uuid \<times> app_role \<Rightarrow> db_error option \<times> db" where
  "insert_user_role d actor new =
     (if \<not> manager_or_admin d actor then (Some RlsViolation, d)
      else if new \<in> set (user_roles d) then (Some UniqueViolation, d)
      else if fst new \<notin> au_id ` set (auth_users d) then (Some ForeignKeyViolation, d)
      else (None, d\<lparr>user_roles := user_roles d @ [new]\<rparr>))"

subsection \<open>Check-in and check-out (Dashboard)\<close>

text \<open>\<open>new Date().toISOString()\<close> as an instant, and its part before the \<open>T\<close> as a date.\<close>
definition instant_of :: "js_date \<Rightarrow> timestamptz" where
  "instant_of ms = ms * 1000"

definition utc_date_of :: "js_date \<Rightarrow> date" where
  "utc_date_of ms = ms div 86400000"

text \<open>
  \<open>handleCheckIn\<close>. The handler reads the browser clock twice (\<open>clock1\<close> for the date,
  \<open>clock2\<close> for the instant); \<open>tz\<close> is the offset of the session's time zone, \<open>srv_now\<close>
  the store's \<open>NOW()\<close> and \<open>new_id\<close> its \<open>gen_random_uuid()\<close>. The data of a failed
  call of the function is null.
\<close>
definition handleCheckIn ::
  "db \<Rightarrow> uuid option \<Rightarrow> js_date \<Rightarrow> js_date \<Rightarrow> int \<Rightarrow> timestamptz \<Rightarrow> uuid \<Rightarrow> toast \<times> db" where
  "handleCheckIn d user clock1 clock2 tz srv_now new_id =
     (case user of
        None \<Rightarrow> (Silent, d)
      | Some u \<Rightarrow>
          (let today = utc_date_of clock1;
               now = instant_of clock2;
               isLate = (case is_late_check_in (settings d) tz now of
                           Inl e \<Rightarrow> False
                         | Inr b \<Rightarrow> b = Some True)
           in case insert_attendance d user
                \<lparr>att_id = new_id, user_id = u, date = today, check_in_time = Some now,
                 check_out_time = None, status = (if isLate then Late else Present),
                 total_hours = None, att_notes = None, created_at = srv_now,
                 updated_at = srv_now, modified_by = None, modified_at = None,
                 original_status = None, modification_reason = None\<rparr> of
                (Some e, d') \<Rightarrow> (ToastStoreError e, d')
              | (None, d') \<Rightarrow>
                  (if isLate then (ToastWarning ''Checked in late!'', d')
                   else (ToastSuccess ''Checked in successfully!'', d'))))"

text \<open>\<open>handleCheckOut\<close>; \<open>todayAttendance\<close> is the row the page loaded, or null.\<close>
definition handleCheckOut ::
  "db \<Rightarrow> uuid option \<Rightarrow> attendance_row option \<Rightarrow> js_date \<Rightarrow> timestamptz \<Rightarrow> toast \<times> db" where
  "handleCheckOut d user todayAttendance clock srv_now =
     (case todayAttendance of
        None \<Rightarrow> (Silent, d)
      | Some t \<Rightarrow>
          (case update_attendance d user (att_id t)
                  (\<lambda>r. r\<lparr>check_out_time := Some (instant_of clock)\<rparr>) srv_now of
             (Some e, d') \<Rightarrow> (ToastStoreError e, d')
           | (None, d') \<Rightarrow> (ToastSuccess ''Checked out successfully!'', d')))"

subsection \<open>The privileged edit (EditAttendanceDialog)\<close>

text \<open>The text of a status, as the store returns it and the dialog compares it.\<close>
fun status_text :: "attendance_status \<Rightarrow> string" where
  "status_text Present = ''present''"
| "status_text Absent = ''absent''"
| "status_text Late = ''late''"
| "status_text HalfDay = ''half-day''"

text \<open>
  The code units that \<open>String.prototype.trim\<close> strips: the white space of ECMAScript
  (tab, vertical tab, form feed, space, no-break space, the byte order mark and the
  other space separators of Unicode) and its line terminators (line feed, carriage
  return, line separator, paragraph separator).
\<close>
definition is_white_space :: "nat \<Rightarrow> bool" where
  "is_white_space c =
     (c \<in> set [0x0009, 0x000A, 0x000B, 0x000C, 0x000D, 0x0020, 0x00A0, 0x1680,
                 0x2028, 0x2029, 0x202F, 0x205F, 0x3000, 0xFEFF]
      \<or> (0x2000 \<le> c \<and> c \<le> 0x200A))"

text \<open>\<open>String.prototype.trim\<close>: the white space at both ends is removed.\<close>
definition trim :: "js_string \<Rightarrow> js_string" where
  "trim s = rev (dropWhile is_white_space (rev (dropWhile is_white_space s)))"

text \<open>
  \<open>editSchema.parse({ status, reason })\<close>: the status is one of the four by its type; the
  reason is trimmed first and must then have 3 to 500 code units (the \<open>length\<close> of a
  JavaScript string). \<open>Inl\<close> is the message of the \<open>ZodError\<close>.
\<close>
definition editSchema_parse ::
  "attendance_status \<Rightarrow> js_string \<Rightarrow> string + (attendance_status \<times> js_string)" where
  "editSchema_parse st reason =
     (let r = trim reason
      in if length r < 3 then Inl ''Reason must be at least 3 characters''
         else if 500 < length r then Inl ''String must contain at most 500 character(s)''
         else Inr (st, r))"

text \<open>
  The dialog's \<open>record\<close> property: the identifier and the status of the row shown, as
  the page loaded them.
\<close>
record dialog_record =
  rec_id :: uuid
  rec_status :: attendance_status

text \<open>The assignment of the dialog's \<open>UPDATE\<close>.\<close>
definition edit_assignment ::
  "dialog_record \<Rightarrow> attendance_status \<Rightarrow> js_string \<Rightarrow> uuid \<Rightarrow> js_date
     \<Rightarrow> attendance_row \<Rightarrow> attendance_row" where
  "edit_assignment record vstatus vreason u clock r =
     r\<lparr>status := vstatus,
       modified_by := Some u,
       modified_at := Some (instant_of clock),
       original_status :=
         (if rec_status record \<noteq> vstatus then Some (status_text (rec_status record))
          else None),
       modification_reason := Some vreason\<rparr>"

text \<open>
  \<open>handleSubmit\<close> of the dialog: \<open>st\<close> and \<open>reason\<close> are the dialog's state, \<open>user\<close>
  is what \<open>auth.getUser()\<close> returns.
\<close>
definition handleSubmit ::
  "db \<Rightarrow> uuid option \<Rightarrow> dialog_record \<Rightarrow> attendance_status \<Rightarrow> js_string \<Rightarrow> js_date
     \<Rightarrow> timestamptz \<Rightarrow> toast \<times> db" where
  "handleSubmit d user record st reason clock srv_now =
     (case editSchema_parse st reason of
        Inl msg \<Rightarrow> (ToastError msg, d)
      | Inr (vstatus, vreason) \<Rightarrow>
          (case user of
             None \<Rightarrow> (ToastError ''You must be logged in'', d)
           | Some u \<Rightarrow>
               (case update_attendance d user (rec_id record)
                       (edit_assignment record vstatus vreason u clock) srv_now of
                  (Some e, d') \<Rightarrow> (ToastStoreError e, d')
                | (None, d') \<Rightarrow>
                    (ToastSuccess ''Attendance record updated successfully!'', d'))))"

subsection \<open>The trigger on new identities\<close>

text \<open>The decimal text of a sequence value.\<close>
definition digit_char :: "nat \<Rightarrow> char" where
  "digit_char n = ''0123456789'' ! n"

fun text_of_nat :: "nat \<Rightarrow> string" where
  "text_of_nat n =
     (if n < 10 then [digit_char n] else text_of_nat (n div 10) @ [digit_char (n mod 10)])"

declare text_of_nat.simps [simp del]

text \<open>
  \<open>LPAD(string, length, fill)\<close>: the fill is repeated on the left up to the length; a
  string longer than the length is cut to its first \<open>length\<close> characters.
\<close>
definition lpad :: "string \<Rightarrow> nat \<Rightarrow> string \<Rightarrow> string" where
  "lpad s n fill =
     (if n \<le> length s then take n s
      else if fill = [] then s
      else take (n - length s) (concat (replicate (n - length s) fill)) @ s)"

text \<open>
  \<open>nextval('employee_id_seq')\<close>: the sequence starts at 1, steps by 1 and ends at the
  largest 64-bit integer. A value handed out stays handed out when the statement fails.
\<close>
definition nextval :: "db \<Rightarrow> db_error + (nat \<times> db)" where
  "nextval d =
     (if 9223372036854775807 \<le> employee_id_seq d then Inl SequenceExhausted
      else Inr (Suc (employee_id_seq d), d\<lparr>employee_id_seq := Suc (employee_id_seq d)\<rparr>))"

text \<open>The casts of a text (or \<open>NULL\<close>) to the two role enums.\<close>
definition cast_user_role :: "string option \<Rightarrow> db_error + user_role option" where
  "cast_user_role t =
     (case t of
        None \<Rightarrow> Inr None
      | Some s \<Rightarrow>
          (if s = ''employee'' then Inr (Some UEmployee)
           else if s = ''manager'' then Inr (Some UManager)
           else Inl InvalidTextRepresentation))"

definition cast_app_role :: "string option \<Rightarrow> db_error + app_role option" where
  "cast_app_role t =
     (case t of
        None \<Rightarrow> Inr None
      | Some s \<Rightarrow>
          (if s = ''admin'' then Inr (Some Admin)
           else if s = ''manager'' then Inr (Some Manager)
           else if s = ''employee'' then Inr (Some Employee)
           else Inl InvalidTextRepresentation))"

fun app_role_text :: "app_role \<Rightarrow> string" where
  "app_role_text Admin = ''admin''"
| "app_role_text Manager = ''manager''"
| "app_role_text Employee = ''employee''"

definition coalesce :: "'a option \<Rightarrow> 'a \<Rightarrow> 'a" where
  "coalesce x dflt = (case x of None \<Rightarrow> dflt | Some v \<Rightarrow> v)"

text \<open>
  \<open>handle_new_user()\<close>, as the last migration leaves it: the trigger function run after
  an insert on \<open>auth.users\<close>. It is \<open>SECURITY DEFINER\<close>, so no policy applies to its two
  inserts. The values of the first insert are computed in the order of the columns (the
  sequence before the cast of the role); then come the primary key of \<open>profiles\<close> and
  the uniqueness of \<open>employee_id\<close>; then the second insert. An error leaves the store
  as it was, the sequence apart.
\<close>
definition handle_new_user :: "db \<Rightarrow> auth_user \<Rightarrow> db_error option \<times> db" where
  "handle_new_user d new =
     (case nextval d of
        Inl e \<Rightarrow> (Some e, d)
      | Inr (n, d1) \<Rightarrow>
          (case cast_user_role (meta_role (raw_user_meta_data new)) of
             Inl e \<Rightarrow> (Some e, d1)
           | Inr prole \<Rightarrow>
               (let p = \<lparr>prof_id = au_id new,
                         name = coalesce (meta_name (raw_user_meta_data new)) ''New User'',
                         email = au_email new,
                         employee_id = ''EMP'' @ lpad (text_of_nat n) 4 ''0'',
                         department =
                           coalesce (meta_department (raw_user_meta_data new)) ''General'',
                         role = coalesce prole UEmployee\<rparr>
                in if list_ex (\<lambda>q. prof_id q = prof_id p \<or> employee_id q = employee_id p)
                        (profiles d1)
                   then (Some UniqueViolation, d1)
                   else
                     (case cast_app_role (meta_role (raw_user_meta_data new)) of
                        Inl e \<Rightarrow> (Some e, d1)
                      | Inr arole \<Rightarrow>
                          (if (au_id new, coalesce arole Employee) \<in> set (user_roles d1)
                           then (Some UniqueViolation, d1)
                           else (None,
                                 d1\<lparr>profiles := profiles d1 @ [p],
                                    user_roles :=
                                      user_roles d1 @ [(au_id new, coalesce arole Employee)]\<rparr>))))))"

text \<open>
  \<open>supabase.auth.signUp\<close>, as far as the schema takes part in it: the identity service
  inserts the row of \<open>auth.users\<close> under the identifier \<open>new_id\<close> it has chosen, the
  trigger runs, and its error is the error of the call. The service's own checks of the
  email and the password are not part of the repository.
\<close>
definition auth_signUp :: "db \<Rightarrow> uuid \<Rightarrow> string \<Rightarrow> user_meta \<Rightarrow> db_error option \<times> db" where
  "auth_signUp d new_id em meta =
     (let u = \<lparr>au_id = new_id, au_email = em, raw_user_meta_data = meta\<rparr>
      in case handle_new_user d u of
           (Some e, d1) \<Rightarrow> (Some e, d1)
         | (None, d1) \<Rightarrow> (None, d1\<lparr>auth_users := auth_users d1 @ [u]\<rparr>))"

subsection \<open>Invitations and registration (Auth)\<close>

text \<open>The page's state \<open>invitationData\<close>.\<close>
record invitation_data =
  iv_email :: string
  iv_name :: string
  iv_department :: string
  iv_role :: app_role
  iv_token :: string

text \<open>The fields of the registration form, as \<open>FormData.get\<close> returns them.\<close>
record signup_form =
  f_name :: "string option"
  f_email :: "string option"
  f_password :: "string option"
  f_department :: "string option"
  f_role :: "string option"

text \<open>
  \<open>supabase.from("invitations").select("*").eq("token", token).eq("status", "pending")\<close>
  under "Managers can view all invitations".
\<close>
definition select_pending_invitation :: "db \<Rightarrow> uuid option \<Rightarrow> string \<Rightarrow> invitation_row list" where
  "select_pending_invitation d actor token =
     filter (\<lambda>i. manager_or_admin d actor \<and> inv_token i = token
                  \<and> inv_status i = Some ''pending'')
       (invitations d)"

text \<open>\<open>maybeSingle()\<close>: no row is null data, several rows are an error.\<close>
fun maybeSingle :: "'a list \<Rightarrow> db_error + 'a option" where
  "maybeSingle [] = Inr None"
| "maybeSingle [x] = Inr (Some x)"
| "maybeSingle (x # y # zs) = Inl MultipleRows"

text \<open>
  \<open>loadInvitation(token)\<close>: the new value of \<open>invitationData\<close>, which an early return
  leaves as it was. \<open>new Date(data.expires_at)\<close> keeps the milliseconds of the instant.
\<close>
definition loadInvitation ::
  "db \<Rightarrow> uuid option \<Rightarrow> string \<Rightarrow> js_date \<Rightarrow> invitation_data option
     \<Rightarrow> toast \<times> invitation_data option" where
  "loadInvitation d actor token clock invitationData =
     (case maybeSingle (select_pending_invitation d actor token) of
        Inl e \<Rightarrow> (ToastError ''Invalid or expired invitation'', invitationData)
      | Inr None \<Rightarrow> (ToastError ''Invalid or expired invitation'', invitationData)
      | Inr (Some data) \<Rightarrow>
          (if inv_expires_at data div 1000 < clock
           then (ToastError ''This invitation has expired'', invitationData)
           else (ToastInfo ''You've been invited! Please create your password to continue.'',
                 Some \<lparr>iv_email = inv_email data, iv_name = inv_name data,
                       iv_department = inv_department data, iv_role = inv_role data,
                       iv_token = inv_token data\<rparr>)))"

text \<open>
  \<open>UPDATE invitations SET status = ... WHERE token = ...\<close> under
  "Managers can update invitations": rows that fail the \<open>USING\<close> expression are passed
  over without an error.
\<close>
definition update_invitation_status ::
  "db \<Rightarrow> uuid option \<Rightarrow> string \<Rightarrow> string \<Rightarrow> db_error option \<times> db" where
  "update_invitation_status d actor token st =
     (None,
      d\<lparr>invitations :=
          map (\<lambda>i. if inv_token i = token \<and> manager_or_admin d actor
                    then i\<lparr>inv_status := Some st\<rparr> else i)
            (invitations d)\<rparr>)"

text \<open>JavaScript's \<open>a || b\<close> on strings: null and the empty string give way to \<open>b\<close>.\<close>
definition js_or :: "string option \<Rightarrow> string option \<Rightarrow> string option" where
  "js_or a b = (case a of None \<Rightarrow> b | Some s \<Rightarrow> if s = [] then b else Some s)"

text \<open>
  \<open>handleSignUp\<close>. \<open>new_id\<close> is the identifier the identity service gives the new user,
  and \<open>session\<close> tells whether the sign-up opens a session: the two statements after it
  run as the new user if it does, and without a user otherwise. Their errors are not read.
  A sign-up without an email is refused by the identity service, with a message of its own.
\<close>
definition handleSignUp ::
  "db \<Rightarrow> invitation_data option \<Rightarrow> signup_form \<Rightarrow> uuid \<Rightarrow> bool \<Rightarrow> toast \<times> db" where
  "handleSignUp d invitationData form new_id session =
     (let name = js_or (map_option iv_name invitationData) (f_name form);
          email = js_or (map_option iv_email invitationData) (f_email form);
          department = js_or (map_option iv_department invitationData) (f_department form);
          role = js_or (map_option (app_role_text \<circ> iv_role) invitationData) (f_role form)
      in case email of
           None \<Rightarrow> (ToastError ''email required'', d)
         | Some em \<Rightarrow>
             (case auth_signUp d new_id em
                     \<lparr>meta_name = name, meta_department = department, meta_role = role\<rparr> of
                (Some e, d1) \<Rightarrow> (ToastStoreError e, d1)
              | (None, d1) \<Rightarrow>
                  (case invitationData of
                     None \<Rightarrow> (ToastSuccess ''Account created successfully!'', d1)
                   | Some invd \<Rightarrow>
                       (let actor = (if session then Some new_id else None);
                            d2 = snd (update_invitation_status d1 actor (iv_token invd)
                                        ''accepted'');
                            d3 = snd (insert_user_role d2 actor (new_id, iv_role invd))
                        in (ToastSuccess ''Account created successfully!'', d3)))))"

subsection \<open>Example data\<close>

text \<open>
  A small store: user 2 is an employee who checked in on 2024-01-01 at 09:20 UTC, user 3
  is a manager who has invited Ann as an employee, and the threshold is 9:15.
\<close>
definition example_row :: attendance_row where
  "example_row =
     \<lparr>att_id = 1, user_id = 2, date = 19723, check_in_time = Some 1704100800000000,
      check_out_time = None, status = Late, total_hours = None, att_notes = None,
      created_at = 1704100800250000, updated_at = 1704100800250000, modified_by = None,
      modified_at = None, original_status = None, modification_reason = None\<rparr>"

definition example_invitation :: invitation_row where
  "example_invitation =
     \<lparr>inv_id = 10, inv_email = ''ann@example.com'', inv_name = ''Ann'',
      inv_department = ''Sales'', inv_role = Employee, invited_by = 3,
      inv_token = ''t0k3n'', inv_status = Some ''pending'',
      inv_expires_at = 1704672000000000\<rparr>"

definition example_db :: db where
  "example_db =
     \<lparr>auth_users = [], profiles = [], user_roles = [(2, Employee), (3, Manager)],
      attendance = [example_row], invitations = [example_invitation],
      settings = [(''late_threshold'', [(''hours'', JInteger 9), (''minutes'', JInteger 15)])],
      employee_id_seq = 3\<rparr>"

text \<open>The same store after a first edit, by user 5, of the record from late to present.\<close>
definition example_edited_row :: attendance_row where
  "example_edited_row =
     example_row\<lparr>status := Present, modified_by := Some 5,
       modified_at := Some 1704103200000000, original_status := Some ''late'',
       modification_reason := Some (code_units ''train strike'')\<rparr>"

definition example_edited_db :: db where
  "example_edited_db = example_db\<lparr>attendance := [example_edited_row]\<rparr>"

text \<open>
  Registration forms: one choosing the manager role, one with no role and no department,
  and Ann's, with the role the form preselects. In the last store the manager has invited
  Ann as a manager.
\<close>
definition example_form :: signup_form where
  "example_form =
     \<lparr>f_name = Some ''Bob'', f_email = Some ''bob@example.com'', f_password = Some ''secret1'',
      f_department = Some ''Sales'', f_role = Some ''manager''\<rparr>"

definition plain_form :: signup_form where
  "plain_form =
     \<lparr>f_name = Some ''Cy'', f_email = Some ''cy@example.com'', f_password = Some ''secret1'',
      f_department = None, f_role = None\<rparr>"



subsection \<open>Properties\<close>

text \<open>Rounding to two decimals, and the rows of an update.\<close>

lemma round_scale2_usecs:
  "round_scale2 (extract_epoch d / 3600) = of_int (sgn d * ((\<bar>d\<bar> + 18000000) div 36000000)) / 100"
proof -
  have "\<bar>extract_epoch d / 3600\<bar> * 100 + 1 / 2 = (of_int (\<bar>d\<bar> + 18000000) :: rat) / of_int 36000000"
    by (simp add: extract_epoch_def field_simps)
  then have "\<lfloor>\<bar>extract_epoch d / 3600\<bar> * 100 + 1 / 2\<rfloor> = (\<bar>d\<bar> + 18000000) div 36000000"
    by (simp only: floor_divide_of_int_eq)
  moreover have "sgn (extract_epoch d / 3600) = (of_int (sgn d) :: rat)"
    by (simp add: extract_epoch_def sgn_divide sgn_if)
  ultimately show ?thesis
    by (simp add: round_scale2_def)
qed

lemma round_scale2_close: "\<bar>round_scale2 x - x\<bar> \<le> 1 / 200"
proof -
  define y where "y = \<bar>x\<bar> * 100"
  define n where "n = \<lfloor>y + 1 / 2\<rfloor>"
  define z where "z = (of_int n - y) / 100"
  have "of_int n \<le> y + 1 / 2" and "y + 1 / 2 < of_int n + 1"
    unfolding n_def by linarith+
  then have "\<bar>of_int n - y\<bar> \<le> 1 / 2"
    by linarith
  then have near: "\<bar>z\<bar> \<le> 1 / 200"
    unfolding z_def by simp
  have "round_scale2 x - x = sgn x * z"
    unfolding round_scale2_def n_def y_def z_def
    by (simp add: sgn_if field_simps)
  then have "\<bar>round_scale2 x - x\<bar> = \<bar>sgn x\<bar> * \<bar>z\<bar>"
    by (simp add: abs_mult)
  also have "\<dots> \<le> \<bar>z\<bar>"
    by (simp add: sgn_if)
  finally show ?thesis
    using near by simp
qed

lemma update_rows_frame:
  assumes "update_rows sel f rs = Inr rs'"
    and "\<And>r r'. f r = Inr r' \<Longrightarrow> P r r'"
    and "\<And>r. P r r"
  shows "list_all2 P rs rs'"
  using assms(1)
proof (induction rs arbitrary: rs')
  case Nil
  then show ?case by simp
next
  case (Cons r rs)
  then show ?case
    using assms(2,3) by (auto split: sum.splits if_splits)
qed

lemma update_rows_map:
  assumes "\<And>r. r \<in> set rs \<Longrightarrow> sel r \<Longrightarrow> f r = Inr (g r)"
  shows "update_rows sel f rs = Inr (map (\<lambda>r. if sel r then g r else r) rs)"
  using assms by (induction rs) simp_all

text \<open>Rows that the trigger leaves alone, and the frame of an edit and of a check-out.\<close>

lemma calculate_total_hours_stable:
  assumes "calculate_total_hours x = Inr x"
    and "check_in_time y = check_in_time x" "check_out_time y = check_out_time x"
    and "total_hours y = total_hours x"
  shows "calculate_total_hours y = Inr y"
proof (cases "check_in_time x")
  case None
  then show ?thesis using assms(2) by (simp add: calculate_total_hours_def)
next
  case cin: (Some cin)
  show ?thesis
  proof (cases "check_out_time x")
    case None
    then show ?thesis using assms(3) cin assms(2) by (simp add: calculate_total_hours_def)
  next
    case (Some cout)
    with cin assms(1) obtain h where h: "numeric_4_2 (extract_epoch (cout - cin) / 3600) = Inr h"
      and "x\<lparr>total_hours := Some h\<rparr> = x"
      by (auto simp: calculate_total_hours_def split: sum.splits)
    then have "total_hours x = Some h"
      by (metis attendance_row.select_convs(7) attendance_row.surjective attendance_row.update_convs(7))
    then have "y\<lparr>total_hours := Some h\<rparr> = y"
      using assms(4) by simp
    then show ?thesis
      using cin Some assms(2,3) h by (simp add: calculate_total_hours_def)
  qed
qed

lemma manager_sees_all:
  "manager_or_admin d actor \<Longrightarrow> attendance_owner_or_manager d actor r"
  by (auto simp: manager_or_admin_def attendance_owner_or_manager_def split: option.splits)

lemma handleSubmit_success:
  assumes len: "3 \<le> length (trim reason)" "length (trim reason) \<le> 500"
    and priv: "manager_or_admin d (Some u)"
    and rows: "\<And>x. x \<in> set (attendance d) \<Longrightarrow> att_id x = rec_id record \<Longrightarrow> calculate_total_hours x = Inr x"
  shows "handleSubmit d (Some u) record st reason clock srv_now =
           (ToastSuccess ''Attendance record updated successfully!'',
            d\<lparr>attendance :=
                map (\<lambda>x. if att_id x = rec_id record
                          then update_updated_at_column srv_now
                                 (edit_assignment record st (trim reason) u clock x)
                          else x)
                  (attendance d)\<rparr>)"
proof -
  let ?sel = "\<lambda>r. att_id r = rec_id record \<and> attendance_owner_or_manager d (Some u) r"
  let ?f = "\<lambda>r. case calculate_total_hours (edit_assignment record st (trim reason) u clock r) of
                   Inl e \<Rightarrow> Inl e
                 | Inr r' \<Rightarrow> Inr (update_updated_at_column srv_now r')"
  let ?g = "\<lambda>r. update_updated_at_column srv_now (edit_assignment record st (trim reason) u clock r)"
  have parse: "editSchema_parse st reason = Inr (st, trim reason)"
    using len by (simp add: editSchema_parse_def Let_def)
  have sel: "?sel r \<longleftrightarrow> att_id r = rec_id record" for r
    using manager_sees_all [OF priv] by simp
  have step: "?f x = Inr (?g x)" if "x \<in> set (attendance d)" "att_id x = rec_id record" for x
  proof -
    have "calculate_total_hours x = Inr x"
      using rows that by blast
    then have "calculate_total_hours (edit_assignment record st (trim reason) u clock x)
            = Inr (edit_assignment record st (trim reason) u clock x)"
      by (rule calculate_total_hours_stable) (simp_all add: edit_assignment_def)
    then show ?thesis by simp
  qed
  have "update_rows ?sel ?f (attendance d) = Inr (map (\<lambda>r. if ?sel r then ?g r else r) (attendance d))"
    by (rule update_rows_map) (use step sel in blast)
  also have "map (\<lambda>r. if ?sel r then ?g r else r) (attendance d)
               = map (\<lambda>r. if att_id r = rec_id record then ?g r else r) (attendance d)"
    by (simp only: sel)
  finally have upd: "update_attendance d (Some u) (rec_id record)
                  (edit_assignment record st (trim reason) u clock) srv_now
               = (None, d\<lparr>attendance := map (\<lambda>r. if att_id r = rec_id record then ?g r else r) (attendance d)\<rparr>)"
    unfolding update_attendance_def by simp
  show ?thesis
    unfolding handleSubmit_def parse by (simp add: upd)
qed

lemma list_all2_same_column:
  "list_all2 (\<lambda>x y. f y = f x) xs ys \<Longrightarrow> map f ys = map f xs"
  by (induction rule: list_all2_induct) simp_all

lemma check_out_step_frame:
  assumes "(case calculate_total_hours (r\<lparr>check_out_time := Some c\<rparr>) of
              Inl e \<Rightarrow> Inl e
            | Inr r' \<Rightarrow> Inr (update_updated_at_column now r')) = Inr y"
  shows "y\<lparr>check_out_time := check_out_time r, total_hours := total_hours r,
           updated_at := updated_at r\<rparr> = r"
  using assms
  by (auto simp: calculate_total_hours_def update_updated_at_column_def
           split: option.splits sum.splits)

text \<open>What a successful run of the trigger on a new identity adds.\<close>

lemma maybeSingle_member: "maybeSingle xs = Inr (Some x) \<Longrightarrow> x \<in> set xs"
  by (cases xs rule: maybeSingle.cases) simp_all

lemma handle_new_user_success:
  assumes "handle_new_user d new = (None, d')"
  shows "invitations d' = invitations d \<and> attendance d' = attendance d
         \<and> (\<exists>r. cast_app_role (meta_role (raw_user_meta_data new)) = Inr r
                \<and> (\<exists>q. cast_user_role (meta_role (raw_user_meta_data new)) = Inr q)
                \<and> user_roles d' = user_roles d @ [(au_id new, coalesce r Employee)])
         \<and> map name (profiles d')
              = map name (profiles d) @ [coalesce (meta_name (raw_user_meta_data new)) ''New User'']
         \<and> map department (profiles d')
              = map department (profiles d)
                  @ [coalesce (meta_department (raw_user_meta_data new)) ''General'']"
  using assms
  by (auto simp: handle_new_user_def nextval_def Let_def split: sum.splits if_splits prod.splits)



text \<open>
  C1. The lateness predicate returns true iff the time of day of the check-in instant is
  strictly greater than the threshold: the threshold is 9:15 when the settings row is
  absent, and the row's hours and minutes when it holds both (hours 0 to 23, minutes 0 to
  59); a check-in exactly at the threshold is not late.
\<close>
theorem is_late_check_in_strict:
  "(map_of st ''late_threshold'' = None \<longrightarrow>
      is_late_check_in st tz t = Inr (Some ((9 * 60 + 15) * 60000000 < time_of_day tz t)))
   \<and> (map_of st ''late_threshold'' = Some v \<and> map_of v ''hours'' = Some (JInteger h)
        \<and> map_of v ''minutes'' = Some (JInteger m) \<and> 0 \<le> h \<and> h \<le> 23 \<and> 0 \<le> m \<and> m \<le> 59 \<longrightarrow>
      is_late_check_in st tz t = Inr (Some ((h * 60 + m) * 60000000 < time_of_day tz t))
      \<and> (time_of_day tz t = (h * 60 + m) * 60000000 \<longrightarrow>
           is_late_check_in st tz t = Inr (Some False)))"
proof -
  have absent: "is_late_check_in st tz t = Inr (Some ((9 * 60 + 15) * 60000000 < time_of_day tz t))"
    if "map_of st ''late_threshold'' = None"
    using that
    by (simp add: is_late_check_in_def select_late_threshold_def make_time_def USECS_PER_DAY_def)
  have present: "is_late_check_in st tz t = Inr (Some ((h * 60 + m) * 60000000 < time_of_day tz t))"
    if row: "map_of st ''late_threshold'' = Some v"
      and hv: "map_of v ''hours'' = Some (JInteger h)"
      and mv: "map_of v ''minutes'' = Some (JInteger m)"
      and rng: "0 \<le> h" "h \<le> 23" "0 \<le> m" "m \<le> 59"
  proof -
    have sel: "select_late_threshold st = Inr (Some h, Some m)"
      using row hv mv rng by (simp add: select_late_threshold_def json_text_int_def)
    have "(h * 60 + m) * 60000000 \<le> USECS_PER_DAY"
      using rng by (simp add: USECS_PER_DAY_def)
    then have mk: "make_time (Some h) (Some m) = Inr (Some ((h * 60 + m) * 60000000))"
      using rng by (simp add: make_time_def)
    show ?thesis
      by (simp add: is_late_check_in_def sel mk)
  qed
  show ?thesis
    using absent present by simp
qed

theorem is_late_check_in_strict_witness:
  "map_of ([] :: (string \<times> jsonb) list) ''late_threshold'' = None
   \<and> is_late_check_in [] 0 1704100501000000 = Inr (Some True)
   \<and> is_late_check_in (settings example_db) 0 1704100500000000 = Inr (Some False)
   \<and> is_late_check_in (settings example_db) 0 1704100501000000 = Inr (Some True)"
  using is_late_check_in_strict [where st = "[]" and tz = 0 and t = 1704100501000000]
        is_late_check_in_strict
          [where st = "settings example_db" and h = 9 and m = 15 and tz = 0
             and v = "[(''hours'', JInteger 9), (''minutes'', JInteger 15)]"
             and t = 1704100500000000]
        is_late_check_in_strict
          [where st = "settings example_db" and h = 9 and m = 15 and tz = 0
             and v = "[(''hours'', JInteger 9), (''minutes'', JInteger 15)]"
             and t = 1704100501000000]
  by (simp add: example_db_def time_of_day_def USECS_PER_DAY_def)

text \<open>
  C3, as stated, fails: the hours stored are not the exact quotient. After one second
  between check-in and check-out the column holds 0.00, while the quotient is 1/3600.
\<close>
theorem total_hours_one_second_counterexample:
  "map_sum id total_hours
     (calculate_total_hours (example_row\<lparr>check_out_time := Some 1704100801000000\<rparr>)) = Inr (Some 0)
   \<and> extract_epoch (1704100801000000 - 1704100800000000) / 3600 \<noteq> 0"
  by (simp add: calculate_total_hours_def example_row_def numeric_4_2_def round_scale2_usecs)
     (simp add: extract_epoch_def)

text \<open>
  C3, amended. When both instants are present the trigger stores the quotient of the
  seconds between them by 3600 rounded to two decimals, which is within 0.005 of the
  quotient, and raises a numeric overflow when the rounded value reaches 100 in magnitude;
  when the check-in or the check-out is absent it computes nothing and leaves the row as
  it is, so unset hours stay unset.
\<close>
theorem calculate_total_hours_rounded:
  "(check_in_time r = Some cin \<and> check_out_time r = Some cout \<longrightarrow>
      \<bar>round_scale2 (extract_epoch (cout - cin) / 3600) - extract_epoch (cout - cin) / 3600\<bar> \<le> 1 / 200
      \<and> calculate_total_hours r =
          (if 100 \<le> \<bar>round_scale2 (extract_epoch (cout - cin) / 3600)\<bar> then Inl NumericOverflow
           else Inr (r\<lparr>total_hours := Some (round_scale2 (extract_epoch (cout - cin) / 3600))\<rparr>)))
   \<and> (check_in_time r = None \<or> check_out_time r = None \<longrightarrow> calculate_total_hours r = Inr r)"
  using round_scale2_close [of "extract_epoch (cout - cin) / 3600"]
  by (auto simp: calculate_total_hours_def numeric_4_2_def split: option.splits)

theorem calculate_total_hours_rounded_witness:
  "calculate_total_hours (example_row\<lparr>check_out_time := Some 1704129600000000\<rparr>)
     = Inr (example_row\<lparr>check_out_time := Some 1704129600000000, total_hours := Some 8\<rparr>)
   \<and> total_hours example_row = None
   \<and> check_out_time example_row = None
   \<and> calculate_total_hours example_row = Inr example_row
   \<and> calculate_total_hours
        (example_row\<lparr>check_in_time := None, check_out_time := Some 1704129600000000\<rparr>)
       = Inr (example_row\<lparr>check_in_time := None, check_out_time := Some 1704129600000000\<rparr>)
   \<and> total_hours (example_row\<lparr>check_in_time := None, check_out_time := Some 1704129600000000\<rparr>)
       = None"
  using calculate_total_hours_rounded
          [of "example_row\<lparr>check_out_time := Some 1704129600000000\<rparr>"
              1704100800000000 1704129600000000]
        calculate_total_hours_rounded [of example_row]
        calculate_total_hours_rounded
          [of "example_row\<lparr>check_in_time := None, check_out_time := Some 1704129600000000\<rparr>"]
  by (simp add: example_row_def round_scale2_usecs)

text \<open>
  C4. When the ledger already has a record for the user and the date, a second check-in
  is rejected by the uniqueness constraint and the store, hence the original record, is
  as before; at the level of the store, any insert of a row with that user and date
  fails and changes nothing.
\<close>
theorem second_check_in_rejected:
  "(r \<in> set (attendance d) \<and> user_id r = u \<and> date r = utc_date_of c_date \<longrightarrow>
      handleCheckIn d (Some u) c_date c_now tz srv_now new_id = (ToastStoreError UniqueViolation, d))
   \<and> (r \<in> set (attendance d) \<and> user_id r = user_id new \<and> date r = date new \<longrightarrow>
      (\<exists>e. insert_attendance d actor new = (Some e, d)))"
proof -
  have store: "\<exists>e. insert_attendance d actor new = (Some e, d)"
    if "r \<in> set (attendance d)" "user_id r = user_id new" "date r = date new"
  proof (cases "calculate_total_hours new")
    case (Inl e)
    then show ?thesis by (simp add: insert_attendance_def)
  next
    case (Inr n)
    then have "user_id n = user_id new" "date n = date new"
      by (auto simp: calculate_total_hours_def numeric_4_2_def split: option.splits if_splits)
    with that have "list_ex (\<lambda>x. att_id x = att_id n \<or> (user_id x = user_id n \<and> date x = date n)) (attendance d)"
      by (auto simp: list_ex_iff)
    with Inr show ?thesis by (simp add: insert_attendance_def)
  qed
  have handler: "handleCheckIn d (Some u) c_date c_now tz srv_now new_id = (ToastStoreError UniqueViolation, d)"
    if "r \<in> set (attendance d)" "user_id r = u" "date r = utc_date_of c_date"
  proof -
    from that have "list_ex (\<lambda>x. att_id x = new_id \<or> (user_id x = u \<and> date x = utc_date_of c_date)) (attendance d)"
      by (auto simp: list_ex_iff)
    then show ?thesis
      by (simp add: handleCheckIn_def insert_attendance_def calculate_total_hours_def Let_def)
  qed
  show ?thesis using store handler by blast
qed

theorem second_check_in_rejected_witness:
  "example_row \<in> set (attendance example_db)
   \<and> handleCheckIn example_db (Some 2) 1704124800000 1704124800000 0 1704124800100000 7
       = (ToastStoreError UniqueViolation, example_db)
   \<and> insert_attendance example_db (Some 2) example_row = (Some UniqueViolation, example_db)"
  using second_check_in_rejected
          [where r = example_row and d = example_db and u = 2 and c_date = 1704124800000
             and c_now = 1704124800000 and tz = 0 and srv_now = 1704124800100000 and new_id = 7
             and new = example_row and actor = "Some 2"]
  by (simp add: example_db_def example_row_def utc_date_of_def insert_attendance_def
        calculate_total_hours_def)

text \<open>
  C9. Whatever the check-out does (nothing, an error, or the update), every row of the
  ledger is afterwards as before in all columns but \<open>check_out_time\<close>, \<open>total_hours\<close>
  and \<open>updated_at\<close>; in particular no status changes. When the rows with the
  identifier are the user's own and the hours fit the column, the check-out sets the
  check-out instant, the trigger derives the hours and refreshes \<open>updated_at\<close>.
\<close>
theorem check_out_keeps_status:
  "list_all2 (\<lambda>x y. y\<lparr>check_out_time := check_out_time x, total_hours := total_hours x,
                       updated_at := updated_at x\<rparr> = x)
     (attendance d) (attendance (snd (handleCheckOut d user today clock srv_now)))
   \<and> map status (attendance (snd (handleCheckOut d user today clock srv_now)))
       = map status (attendance d)
   \<and> ((\<forall>x\<in>set (attendance d). att_id x = att_id t \<longrightarrow>
          user_id x = u
          \<and> (case check_in_time x of
                None \<Rightarrow> True
              | Some cin \<Rightarrow>
                  \<bar>round_scale2 (extract_epoch (instant_of clock - cin) / 3600)\<bar> < 100)) \<longrightarrow>
       handleCheckOut d (Some u) (Some t) clock srv_now
         = (ToastSuccess ''Checked out successfully!'',
            d\<lparr>attendance :=
                map (\<lambda>x. if att_id x = att_id t
                          then x\<lparr>check_out_time := Some (instant_of clock),
                                 total_hours :=
                                   (case check_in_time x of
                                      None \<Rightarrow> total_hours x
                                    | Some cin \<Rightarrow>
                                        Some (round_scale2
                                                (extract_epoch (instant_of clock - cin) / 3600))),
                                 updated_at := srv_now\<rparr>
                          else x)
                  (attendance d)\<rparr>))"
proof (intro conjI impI)
  let ?P = "\<lambda>x y. y\<lparr>check_out_time := check_out_time x, total_hours := total_hours x,
                       updated_at := updated_at x\<rparr> = x"
  show frame: "list_all2 ?P (attendance d) (attendance (snd (handleCheckOut d user today clock srv_now)))"
  proof (cases today)
    case None
    then show ?thesis by (simp add: handleCheckOut_def list_all2_same)
  next
    case (Some t0)
    show ?thesis
    proof (cases "update_rows (\<lambda>r. att_id r = att_id t0 \<and> attendance_owner_or_manager d user r)
             (\<lambda>r. case calculate_total_hours (r\<lparr>check_out_time := Some (instant_of clock)\<rparr>) of
                     Inl e \<Rightarrow> Inl e
                   | Inr r' \<Rightarrow> Inr (update_updated_at_column srv_now r'))
             (attendance d)")
      case (Inl e)
      then show ?thesis
        using Some by (simp add: handleCheckOut_def update_attendance_def list_all2_same)
    next
      case (Inr rs)
      then have "list_all2 ?P (attendance d) rs"
        by (rule update_rows_frame) (auto dest: check_out_step_frame)
      then show ?thesis
        using Some Inr by (simp add: handleCheckOut_def update_attendance_def)
    qed
  qed
  have "list_all2 (\<lambda>x y. status y = status x) (attendance d)
          (attendance (snd (handleCheckOut d user today clock srv_now)))"
    using frame
    by (rule list_all2_mono)
       (metis attendance_row.select_convs(6) attendance_row.surjective
          attendance_row.update_convs(5,7,10))
  then show "map status (attendance (snd (handleCheckOut d user today clock srv_now)))
       = map status (attendance d)"
    by (rule list_all2_same_column)
next
  assume h: "\<forall>x\<in>set (attendance d). att_id x = att_id t \<longrightarrow>
          user_id x = u
          \<and> (case check_in_time x of
                None \<Rightarrow> True
              | Some cin \<Rightarrow>
                  \<bar>round_scale2 (extract_epoch (instant_of clock - cin) / 3600)\<bar> < 100)"
  let ?sel = "\<lambda>r. att_id r = att_id t \<and> attendance_owner_or_manager d (Some u) r"
  let ?f = "\<lambda>r. case calculate_total_hours (r\<lparr>check_out_time := Some (instant_of clock)\<rparr>) of
                   Inl e \<Rightarrow> Inl e
                 | Inr r' \<Rightarrow> Inr (update_updated_at_column srv_now r')"
  let ?g = "\<lambda>x. x\<lparr>check_out_time := Some (instant_of clock),
                   total_hours :=
                     (case check_in_time x of
                        None \<Rightarrow> total_hours x
                      | Some cin \<Rightarrow>
                          Some (round_scale2 (extract_epoch (instant_of clock - cin) / 3600))),
                   updated_at := srv_now\<rparr>"
  have sel: "?sel x \<longleftrightarrow> att_id x = att_id t" if "x \<in> set (attendance d)" for x
    using h that by (auto simp: attendance_owner_or_manager_def)
  have step: "?f x = Inr (?g x)" if "x \<in> set (attendance d)" "?sel x" for x
    using h that
    by (auto simp: calculate_total_hours_def numeric_4_2_def update_updated_at_column_def
             split: option.splits)
  have "update_rows ?sel ?f (attendance d) = Inr (map (\<lambda>r. if ?sel r then ?g r else r) (attendance d))"
    by (rule update_rows_map) (use step in blast)
  also have "map (\<lambda>r. if ?sel r then ?g r else r) (attendance d)
               = map (\<lambda>r. if att_id r = att_id t then ?g r else r) (attendance d)"
    by (rule map_cong) (use sel in auto)
  finally have "update_attendance d (Some u) (att_id t)
                  (\<lambda>r. r\<lparr>check_out_time := Some (instant_of clock)\<rparr>) srv_now
               = (None, d\<lparr>attendance := map (\<lambda>r. if att_id r = att_id t then ?g r else r) (attendance d)\<rparr>)"
    unfolding update_attendance_def by simp
  then show "handleCheckOut d (Some u) (Some t) clock srv_now
         = (ToastSuccess ''Checked out successfully!'',
            d\<lparr>attendance := map (\<lambda>r. if att_id r = att_id t then ?g r else r) (attendance d)\<rparr>)"
    by (simp add: handleCheckOut_def)
qed


theorem check_out_keeps_status_witness:
  "handleCheckOut example_db (Some 2) (Some example_row) 1704129600000 1704129600100000
     = (ToastSuccess ''Checked out successfully!'',
        example_db\<lparr>attendance :=
          [example_row\<lparr>check_out_time := Some 1704129600000000, total_hours := Some 8,
             updated_at := 1704129600100000\<rparr>]\<rparr>)
   \<and> map status (attendance (snd (handleCheckOut example_db (Some 2) (Some example_row)
          1704129600000 1704129600100000))) = [Late]"
  using check_out_keeps_status
          [where d = example_db and u = 2 and t = example_row and clock = 1704129600000
             and srv_now = 1704129600100000 and user = "Some 2" and today = "Some example_row"]
  by (simp add: example_db_def example_row_def instant_of_def round_scale2_usecs)

text \<open>
  C6, as stated, fails for the delete: an employee's delete of an attendance record
  raises no error; it deletes no row.
\<close>
theorem delete_without_role_counterexample:
  "\<not> has_role example_db 2 Manager \<and> \<not> has_role example_db 2 Admin
   \<and> delete_attendance example_db (Some 2) 1 = (Inr 0, example_db)"
  by (simp add: has_role_def delete_attendance_def manager_or_admin_def example_db_def)

text \<open>
  C6, amended. For an identity holding neither the manager nor the admin role, an insert
  into \<open>user_roles\<close> fails with the policy's error and a delete of an attendance record
  deletes no row, without an error; the store is unchanged in both cases.
\<close>
theorem unprivileged_role_insert_and_delete:
  "\<not> has_role d u Manager \<and> \<not> has_role d u Admin \<longrightarrow>
     insert_user_role d (Some u) new = (Some RlsViolation, d)
     \<and> delete_attendance d (Some u) rid = (Inr 0, d)"
  by (simp add: insert_user_role_def delete_attendance_def manager_or_admin_def)

theorem unprivileged_role_insert_and_delete_witness:
  "\<not> has_role example_db 2 Manager \<and> \<not> has_role example_db 2 Admin
   \<and> insert_user_role example_db (Some 2) (2, Manager) = (Some RlsViolation, example_db)
   \<and> delete_attendance example_db (Some 2) 1 = (Inr 0, example_db)"
  using unprivileged_role_insert_and_delete [where d = example_db and u = 2 and new = "(2, Manager)" and rid = 1]
  by (simp add: has_role_def example_db_def)

text \<open>
  C7, as stated, fails in its last part: after an expired invitation (still pending) has
  been refused, a registration whose form chooses the manager role gives the new identity
  the manager role, not the default one.
\<close>
theorem expired_invitation_manager_counterexample:
  "inv_status example_invitation = Some ''pending''
   \<and> inv_expires_at example_invitation < instant_of 1704672000001
   \<and> loadInvitation example_db (Some 3) ''t0k3n'' 1704672000001 None
       = (ToastError ''This invitation has expired'', None)
   \<and> fst (handleSignUp example_db None example_form 7 True)
       = ToastSuccess ''Account created successfully!''
   \<and> has_role (snd (handleSignUp example_db None example_form 7 True)) 7 Manager
   \<and> \<not> has_role (snd (handleSignUp example_db None example_form 7 True)) 7 Employee"
  by (simp add: loadInvitation_def select_pending_invitation_def example_db_def
        example_invitation_def manager_or_admin_def has_role_def instant_of_def
        handleSignUp_def auth_signUp_def handle_new_user_def nextval_def example_form_def
        js_or_def cast_user_role_def cast_app_role_def coalesce_def Let_def text_of_nat.simps
        digit_char_def lpad_def numeral_3_eq_3)

text \<open>
  C7, amended. When every invitation with the token has its expiry before the reading
  of the clock, the lookup leaves \<open>invitationData\<close> as it was, whatever the stored
  status; and a registration without invitation data that succeeds leaves the invitations
  alone and takes name, department and role from the form: the role granted is the one
  submitted (employee or manager), and employee when none is submitted.
\<close>
theorem expired_invitation_not_used:
  "((\<forall>i\<in>set (invitations d). inv_token i = token \<longrightarrow> inv_expires_at i < instant_of clock) \<longrightarrow>
      snd (loadInvitation d actor token clock cur) = cur)
   \<and> (handleSignUp d None form new_id session
         = (ToastSuccess ''Account created successfully!'', d') \<longrightarrow>
       invitations d' = invitations d
       \<and> user_roles d'
           = user_roles d
               @ [(new_id, case f_role form of
                             None \<Rightarrow> Employee
                           | Some s \<Rightarrow> if s = ''manager'' then Manager else Employee)]
       \<and> map name (profiles d') = map name (profiles d) @ [coalesce (f_name form) ''New User'']
       \<and> map department (profiles d')
           = map department (profiles d) @ [coalesce (f_department form) ''General''])"
proof (intro conjI impI)
  assume expired: "\<forall>i\<in>set (invitations d). inv_token i = token \<longrightarrow> inv_expires_at i < instant_of clock"
  show "snd (loadInvitation d actor token clock cur) = cur"
  proof (cases "maybeSingle (select_pending_invitation d actor token)")
    case (Inl e)
    then show ?thesis by (simp add: loadInvitation_def)
  next
    case (Inr found)
    show ?thesis
    proof (cases found)
      case None
      with Inr show ?thesis by (simp add: loadInvitation_def)
    next
      case (Some data)
      with Inr have "data \<in> set (select_pending_invitation d actor token)"
        by (simp add: maybeSingle_member)
      then have "inv_expires_at data < instant_of clock"
        using expired by (simp add: select_pending_invitation_def)
      then have "inv_expires_at data div 1000 < clock"
        unfolding instant_of_def by presburger
      with Inr Some show ?thesis by (simp add: loadInvitation_def)
    qed
  qed
next
  assume run: "handleSignUp d None form new_id session
         = (ToastSuccess ''Account created successfully!'', d')"
  then obtain em d1 where em: "f_email form = Some em"
    and trig: "handle_new_user d \<lparr>au_id = new_id, au_email = em,
                  raw_user_meta_data = \<lparr>meta_name = f_name form,
                    meta_department = f_department form, meta_role = f_role form\<rparr>\<rparr> = (None, d1)"
    and d': "d' = d1\<lparr>auth_users := auth_users d1 @ [\<lparr>au_id = new_id, au_email = em,
                  raw_user_meta_data = \<lparr>meta_name = f_name form,
                    meta_department = f_department form, meta_role = f_role form\<rparr>\<rparr>]\<rparr>"
    by (auto simp: handleSignUp_def auth_signUp_def js_or_def Let_def
             split: option.splits prod.splits)
  note facts = handle_new_user_success [OF trig]
  from facts obtain r q where r: "cast_app_role (f_role form) = Inr r"
    and q: "cast_user_role (f_role form) = Inr q"
    and roles: "user_roles d1 = user_roles d @ [(new_id, coalesce r Employee)]"
    by auto
  have "coalesce r Employee
          = (case f_role form of None \<Rightarrow> Employee
             | Some s \<Rightarrow> if s = ''manager'' then Manager else Employee)"
    using r q
    by (auto simp: cast_app_role_def cast_user_role_def coalesce_def split: option.splits if_splits)
  with roles facts d'
  show "invitations d' = invitations d"
    and "user_roles d'
           = user_roles d
               @ [(new_id, case f_role form of
                             None \<Rightarrow> Employee
                           | Some s \<Rightarrow> if s = ''manager'' then Manager else Employee)]"
    and "map name (profiles d') = map name (profiles d) @ [coalesce (f_name form) ''New User'']"
    and "map department (profiles d')
           = map department (profiles d) @ [coalesce (f_department form) ''General'']"
    by simp_all
qed

theorem expired_invitation_not_used_witness:
  "inv_expires_at example_invitation < instant_of 1704672000001
   \<and> snd (loadInvitation example_db (Some 3) ''t0k3n'' 1704672000001 None) = None
   \<and> fst (handleSignUp example_db None plain_form 7 True)
       = ToastSuccess ''Account created successfully!''
   \<and> invitations (snd (handleSignUp example_db None plain_form 7 True)) = [example_invitation]
   \<and> user_roles (snd (handleSignUp example_db None plain_form 7 True))
       = [(2, Employee), (3, Manager), (7, Employee)]
   \<and> map department (profiles (snd (handleSignUp example_db None plain_form 7 True)))
       = [''General'']"
  using expired_invitation_not_used
          [where d = example_db and token = "''t0k3n''" and clock = 1704672000001
             and actor = "Some 3" and cur = None and form = plain_form and new_id = 7
             and session = True and d' = "snd (handleSignUp example_db None plain_form 7 True)"]
  by (simp add: example_db_def example_invitation_def instant_of_def
        handleSignUp_def auth_signUp_def handle_new_user_def nextval_def plain_form_def
        js_or_def cast_user_role_def cast_app_role_def coalesce_def Let_def text_of_nat.simps
        digit_char_def lpad_def numeral_3_eq_3)

text \<open>
  C8, at two failing inputs. When the sequence has handed out 9999 values, the next
  identity gets the code \<open>EMP1000\<close>: the ordinal 10000 cut to four characters, which
  is the code of the thousandth identity. And for the metadata role \<open>admin\<close> the cast to
  the two-valued enum of \<open>profiles.role\<close> raises: no profile and no role grant are
  created, and the value of the sequence is spent.
\<close>
theorem handle_new_user_defects:
  "handle_new_user (example_db\<lparr>employee_id_seq := 9999\<rparr>)
     \<lparr>au_id = 7, au_email = ''ann@example.com'',
      raw_user_meta_data = \<lparr>meta_name = Some ''Ann'', meta_department = Some ''Sales'',
                            meta_role = Some ''employee''\<rparr>\<rparr>
     = (None,
        example_db\<lparr>employee_id_seq := 10000,
          profiles := [\<lparr>prof_id = 7, name = ''Ann'', email = ''ann@example.com'',
                        employee_id = ''EMP1000'', department = ''Sales'', role = UEmployee\<rparr>],
          user_roles := [(2, Employee), (3, Manager), (7, Employee)]\<rparr>)
   \<and> handle_new_user example_db
       \<lparr>au_id = 7, au_email = ''ann@example.com'',
        raw_user_meta_data = \<lparr>meta_name = Some ''Ann'', meta_department = Some ''Sales'',
                              meta_role = Some ''admin''\<rparr>\<rparr>
     = (Some InvalidTextRepresentation, example_db\<lparr>employee_id_seq := 4\<rparr>)"
  by (simp add: example_db_def handle_new_user_def nextval_def
        cast_user_role_def cast_app_role_def coalesce_def Let_def text_of_nat.simps
        digit_char_def lpad_def)


text \<open>
  C5, as stated, fails for a dialog that shows an older status than the record has. The
  record was late, has since been set to present by another editor, and the dialog,
  loaded before, still shows late. The edit to absent differs from the current status,
  present, but what is captured into \<open>original_status\<close> is the dialog's late.
\<close>
theorem stale_dialog_original_status_counterexample:
  "status (attendance example_edited_db ! 0) = Present
   \<and> status_text (status (attendance example_edited_db ! 0)) = ''present''
   \<and> manager_or_admin example_edited_db (Some 3)
   \<and> fst (handleSubmit example_edited_db (Some 3) \<lparr>rec_id = 1, rec_status = Late\<rparr> Absent
             (code_units ''flu'') 1704106800000 1704106800100000)
       = ToastSuccess ''Attendance record updated successfully!''
   \<and> status (attendance (snd (handleSubmit example_edited_db (Some 3)
          \<lparr>rec_id = 1, rec_status = Late\<rparr> Absent (code_units ''flu'') 1704106800000
          1704106800100000)) ! 0) = Absent
   \<and> original_status (attendance (snd (handleSubmit example_edited_db (Some 3)
          \<lparr>rec_id = 1, rec_status = Late\<rparr> Absent (code_units ''flu'') 1704106800000
          1704106800100000)) ! 0) = Some ''late''"
  by (simp add: example_edited_db_def example_db_def example_edited_row_def example_row_def
        handleSubmit_def editSchema_parse_def trim_def is_white_space_def code_units_def
        update_attendance_def attendance_owner_or_manager_def manager_or_admin_def has_role_def
        calculate_total_hours_def update_updated_at_column_def edit_assignment_def Let_def)

text \<open>
  C5, amended. A privileged edit whose reason, trimmed, has fewer than 3 code units is
  rejected before any statement is sent. Otherwise (reason of 3 to 500 code units, editor
  a manager or admin, the row's hours being what the trigger derives, as they are for
  every stored row) the edit succeeds and the row gets the new status, the editor's
  identity, the instant of the edit and the trimmed reason; its \<open>original_status\<close>
  becomes the text of the status the dialog shows when the new status differs from it,
  and null when it is the same.
\<close>
theorem privileged_edit_audit:
  "(length (trim reason) < 3 \<longrightarrow>
      handleSubmit d user rcd st reason clock srv_now
        = (ToastError ''Reason must be at least 3 characters'', d))
   \<and> (3 \<le> length (trim reason) \<and> length (trim reason) \<le> 500 \<and> manager_or_admin d (Some u)
        \<and> (\<forall>x\<in>set (attendance d). att_id x = rec_id rcd \<longrightarrow> calculate_total_hours x = Inr x) \<longrightarrow>
      handleSubmit d (Some u) rcd st reason clock srv_now
        = (ToastSuccess ''Attendance record updated successfully!'',
           d\<lparr>attendance :=
               map (\<lambda>x. if att_id x = rec_id rcd
                         then x\<lparr>status := st,
                                modified_by := Some u,
                                modified_at := Some (instant_of clock),
                                original_status :=
                                  (if rec_status rcd \<noteq> st
                                   then Some (status_text (rec_status rcd)) else None),
                                modification_reason := Some (trim reason),
                                updated_at := srv_now\<rparr>
                         else x)
                 (attendance d)\<rparr>))"
proof (intro conjI impI)
  assume "length (trim reason) < 3"
  then show "handleSubmit d user rcd st reason clock srv_now
        = (ToastError ''Reason must be at least 3 characters'', d)"
    by (simp add: handleSubmit_def editSchema_parse_def Let_def)
next
  assume h: "3 \<le> length (trim reason) \<and> length (trim reason) \<le> 500 \<and> manager_or_admin d (Some u)
        \<and> (\<forall>x\<in>set (attendance d). att_id x = rec_id rcd \<longrightarrow> calculate_total_hours x = Inr x)"
  have "handleSubmit d (Some u) rcd st reason clock srv_now =
           (ToastSuccess ''Attendance record updated successfully!'',
            d\<lparr>attendance :=
                map (\<lambda>x. if att_id x = rec_id rcd
                          then update_updated_at_column srv_now
                                 (edit_assignment rcd st (trim reason) u clock x)
                          else x)
                  (attendance d)\<rparr>)"
    by (rule handleSubmit_success) (use h in auto)
  then show "handleSubmit d (Some u) rcd st reason clock srv_now
        = (ToastSuccess ''Attendance record updated successfully!'',
           d\<lparr>attendance :=
               map (\<lambda>x. if att_id x = rec_id rcd
                         then x\<lparr>status := st,
                                modified_by := Some u,
                                modified_at := Some (instant_of clock),
                                original_status :=
                                  (if rec_status rcd \<noteq> st
                                   then Some (status_text (rec_status rcd)) else None),
                                modification_reason := Some (trim reason),
                                updated_at := srv_now\<rparr>
                         else x)
                 (attendance d)\<rparr>)"
    by (simp add: update_updated_at_column_def edit_assignment_def)
qed

theorem privileged_edit_audit_witness:
  "handleSubmit example_db (Some 3) \<lparr>rec_id = 1, rec_status = Late\<rparr> Present
       [0x00A0, 0x6F, 0x6B, 0x2003, 0xFEFF] 1704103200000 1704103200100000
     = (ToastError ''Reason must be at least 3 characters'', example_db)
   \<and> manager_or_admin example_db (Some 3)
   \<and> handleSubmit example_db (Some 3) \<lparr>rec_id = 1, rec_status = Late\<rparr> Present
       (0x00A0 # code_units '' flu '') 1704103200000 1704103200100000
     = (ToastSuccess ''Attendance record updated successfully!'',
        example_db\<lparr>attendance :=
          [example_row\<lparr>status := Present, modified_by := Some 3,
             modified_at := Some 1704103200000000, original_status := Some ''late'',
             modification_reason := Some (code_units ''flu''),
             updated_at := 1704103200100000\<rparr>]\<rparr>)
   \<and> handleSubmit example_db (Some 3) \<lparr>rec_id = 1, rec_status = Late\<rparr> Late
       (0x00A0 # code_units '' flu '') 1704103200000 1704103200100000
     = (ToastSuccess ''Attendance record updated successfully!'',
        example_db\<lparr>attendance :=
          [example_row\<lparr>status := Late, modified_by := Some 3,
             modified_at := Some 1704103200000000, original_status := None,
             modification_reason := Some (code_units ''flu''),
             updated_at := 1704103200100000\<rparr>]\<rparr>)"
  using privileged_edit_audit
          [where d = example_db and user = "Some 3" and u = 3
             and reason = "[0x00A0, 0x6F, 0x6B, 0x2003, 0xFEFF]"
             and rcd = "\<lparr>rec_id = 1, rec_status = Late\<rparr>" and st = Present
             and clock = 1704103200000 and srv_now = 1704103200100000]
        privileged_edit_audit
          [where d = example_db and u = 3 and reason = "0x00A0 # code_units '' flu ''"
             and rcd = "\<lparr>rec_id = 1, rec_status = Late\<rparr>" and st = Present
             and clock = 1704103200000 and srv_now = 1704103200100000]
        privileged_edit_audit
          [where d = example_db and u = 3 and reason = "0x00A0 # code_units '' flu ''"
             and rcd = "\<lparr>rec_id = 1, rec_status = Late\<rparr>" and st = Late
             and clock = 1704103200000 and srv_now = 1704103200100000]
  by (simp add: example_db_def example_row_def trim_def is_white_space_def code_units_def
        manager_or_admin_def has_role_def calculate_total_hours_def instant_of_def)

text \<open>
  C10, as stated, fails for a dialog that shows an older status than the record has. The
  record, first late, was edited to present, with \<open>original_status\<close> late. A dialog
  loaded before that edit shows late; its edit to present, which is the record's current
  status, does not make \<open>original_status\<close> null.
\<close>
theorem stale_dialog_same_status_counterexample:
  "status (attendance example_edited_db ! 0) = Present
   \<and> original_status (attendance example_edited_db ! 0) = Some ''late''
   \<and> manager_or_admin example_edited_db (Some 3)
   \<and> fst (handleSubmit example_edited_db (Some 3) \<lparr>rec_id = 1, rec_status = Late\<rparr> Present
             (code_units ''checked'') 1704106800000 1704106800100000)
       = ToastSuccess ''Attendance record updated successfully!''
   \<and> status (attendance (snd (handleSubmit example_edited_db (Some 3)
          \<lparr>rec_id = 1, rec_status = Late\<rparr> Present (code_units ''checked'') 1704106800000
          1704106800100000)) ! 0) = Present
   \<and> original_status (attendance (snd (handleSubmit example_edited_db (Some 3)
          \<lparr>rec_id = 1, rec_status = Late\<rparr> Present (code_units ''checked'') 1704106800000
          1704106800100000)) ! 0) \<noteq> None"
  by (simp add: example_edited_db_def example_db_def example_edited_row_def example_row_def
        handleSubmit_def editSchema_parse_def trim_def is_white_space_def code_units_def
        update_attendance_def attendance_owner_or_manager_def manager_or_admin_def has_role_def
        calculate_total_hours_def update_updated_at_column_def edit_assignment_def Let_def)

text \<open>
  C10, amended. Every successful privileged edit overwrites the modifier, the
  modification instant and the reason of the row, whatever they were; and when the new
  status equals the status the dialog shows, the status of the row becomes that status
  and \<open>original_status\<close> becomes null, whatever it held.
\<close>
theorem repeated_edit_overwrites_audit:
  "3 \<le> length (trim reason) \<and> length (trim reason) \<le> 500 \<and> manager_or_admin d (Some u)
     \<and> (\<forall>x\<in>set (attendance d). att_id x = rec_id rcd \<longrightarrow> calculate_total_hours x = Inr x) \<longrightarrow>
   (\<exists>d'. handleSubmit d (Some u) rcd st reason clock srv_now
            = (ToastSuccess ''Attendance record updated successfully!'', d')
      \<and> length (attendance d') = length (attendance d)
      \<and> (\<forall>i<length (attendance d). att_id (attendance d ! i) = rec_id rcd \<longrightarrow>
            att_id (attendance d' ! i) = rec_id rcd
            \<and> modified_by (attendance d' ! i) = Some u
            \<and> modified_at (attendance d' ! i) = Some (instant_of clock)
            \<and> modification_reason (attendance d' ! i) = Some (trim reason)
            \<and> (st = rec_status rcd \<longrightarrow>
                  status (attendance d' ! i) = rec_status rcd
                  \<and> original_status (attendance d' ! i) = None)))"
proof
  assume h: "3 \<le> length (trim reason) \<and> length (trim reason) \<le> 500 \<and> manager_or_admin d (Some u)
     \<and> (\<forall>x\<in>set (attendance d). att_id x = rec_id rcd \<longrightarrow> calculate_total_hours x = Inr x)"
  define rows where
    "rows = map (\<lambda>x. if att_id x = rec_id rcd
                      then update_updated_at_column srv_now
                             (edit_assignment rcd st (trim reason) u clock x)
                      else x) (attendance d)"
  have run: "handleSubmit d (Some u) rcd st reason clock srv_now
          = (ToastSuccess ''Attendance record updated successfully!'', d\<lparr>attendance := rows\<rparr>)"
    unfolding rows_def by (rule handleSubmit_success) (use h in auto)
  have len: "length rows = length (attendance d)"
    by (simp add: rows_def)
  have row: "att_id (rows ! i) = rec_id rcd
            \<and> modified_by (rows ! i) = Some u
            \<and> modified_at (rows ! i) = Some (instant_of clock)
            \<and> modification_reason (rows ! i) = Some (trim reason)
            \<and> (st = rec_status rcd \<longrightarrow>
                  status (rows ! i) = rec_status rcd \<and> original_status (rows ! i) = None)"
    if "i < length (attendance d)" "att_id (attendance d ! i) = rec_id rcd" for i
    using that by (simp add: rows_def update_updated_at_column_def edit_assignment_def)
  show "\<exists>d'. handleSubmit d (Some u) rcd st reason clock srv_now
            = (ToastSuccess ''Attendance record updated successfully!'', d')
      \<and> length (attendance d') = length (attendance d)
      \<and> (\<forall>i<length (attendance d). att_id (attendance d ! i) = rec_id rcd \<longrightarrow>
            att_id (attendance d' ! i) = rec_id rcd
            \<and> modified_by (attendance d' ! i) = Some u
            \<and> modified_at (attendance d' ! i) = Some (instant_of clock)
            \<and> modification_reason (attendance d' ! i) = Some (trim reason)
            \<and> (st = rec_status rcd \<longrightarrow>
                  status (attendance d' ! i) = rec_status rcd
                  \<and> original_status (attendance d' ! i) = None))"
    by (rule exI [of _ "d\<lparr>attendance := rows\<rparr>"]) (use run len row in simp)
qed

theorem repeated_edit_overwrites_audit_witness:
  "original_status (attendance example_edited_db ! 0) = Some ''late''
   \<and> modified_by (attendance example_edited_db ! 0) = Some 5
   \<and> modification_reason (attendance example_edited_db ! 0) = Some (code_units ''train strike'')
   \<and> fst (handleSubmit example_edited_db (Some 3) \<lparr>rec_id = 1, rec_status = Present\<rparr> Present
        (code_units ''checked'') 1704106800000 1704106800100000)
       = ToastSuccess ''Attendance record updated successfully!''
   \<and> original_status
        (attendance (snd (handleSubmit example_edited_db (Some 3)
           \<lparr>rec_id = 1, rec_status = Present\<rparr> Present (code_units ''checked'') 1704106800000
           1704106800100000)) ! 0) = None
   \<and> modified_by
        (attendance (snd (handleSubmit example_edited_db (Some 3)
           \<lparr>rec_id = 1, rec_status = Present\<rparr> Present (code_units ''checked'') 1704106800000
           1704106800100000)) ! 0) = Some 3
   \<and> modification_reason
        (attendance (snd (handleSubmit example_edited_db (Some 3)
           \<lparr>rec_id = 1, rec_status = Present\<rparr> Present (code_units ''checked'') 1704106800000
           1704106800100000)) ! 0) = Some (code_units ''checked'')"
  using repeated_edit_overwrites_audit
          [where d = example_edited_db and u = 3 and reason = "code_units ''checked''"
             and rcd = "\<lparr>rec_id = 1, rec_status = Present\<rparr>" and st = Present
             and clock = 1704106800000 and srv_now = 1704106800100000]
  by (auto simp: example_edited_db_def example_db_def example_edited_row_def example_row_def
        trim_def is_white_space_def code_units_def manager_or_admin_def has_role_def
        calculate_total_hours_def)

end
